theory Spec2Isabelle
  imports Complex_Main
begin

section \<open>Grid trading engine: price ladder, order ledger, placement and rebalancing\<close>

text \<open>
  A shallow embedding of \<^verbatim>\<open>src/grid_trader.py\<close>. Python floats are modelled as exact
  real numbers: \<^verbatim>\<open>round(x, n)\<close> rounds the exact value half-to-even at \<open>n\<close> decimals and
  \<^verbatim>\<open>int(x)\<close> truncates towards zero. Overflow, infinities and NaN are outside the model.
  Every concrete input used below is a dyadic rational or a short decimal that lies far
  from a rounding boundary, so the float computation of the source takes the same branches.
\<close>

subsection \<open>Exceptions\<close>

datatype error = ZeroDivisionError | TypeError | ValueError | ExchangeError

subsection \<open>Python numerics\<close>

definition round_half_even :: "real \<Rightarrow> int" where
  "round_half_even x =
     (let f = \<lfloor>x\<rfloor>; d = x - of_int f
      in if d < 1 / 2 then f else if 1 / 2 < d then f + 1 else if even f then f else f + 1)"

definition py_round :: "real \<Rightarrow> nat \<Rightarrow> real" where
  \<comment> \<open>\<^verbatim>\<open>round(x, n)\<close> on a float\<close>
  "py_round x n = of_int (round_half_even (x * 10 ^ n)) / 10 ^ n"

definition py_int :: "real \<Rightarrow> int" where
  \<comment> \<open>\<^verbatim>\<open>int(x)\<close> on a float: truncation towards zero\<close>
  "py_int x = (if 0 \<le> x then \<lfloor>x\<rfloor> else \<lceil>x\<rceil>)"


definition truthy :: "real option \<Rightarrow> bool" where
  \<comment> \<open>truth value of an optional float: \<^verbatim>\<open>None\<close> and \<^verbatim>\<open>0.0\<close> are false\<close>
  "truthy v = (case v of None \<Rightarrow> False | Some x \<Rightarrow> x \<noteq> 0)"



subsection \<open>Configuration (the attributes \<^verbatim>\<open>GridTrader.__init__\<close> loads)\<close>

record config =
  symbol :: string
  upper_price :: real
  lower_price :: real
  grid_number :: int
  investment :: real
  grid_type :: string
  min_order_size :: real
  post_only :: bool
  time_in_force :: string
  max_orders :: int
  stop_loss_price :: real
  take_profit_price :: real
  check_interval :: int

subsection \<open>Price ladder\<close>


definition get_order_amount :: "config \<Rightarrow> real \<Rightarrow> error + real" where
  "get_order_amount c price =
     (if grid_number c = 0 then Inl ZeroDivisionError
      else let grid_investment = investment c / of_int (grid_number c)
           in if price = 0 then Inl ZeroDivisionError
              else let amount = grid_investment / price
                   in Inr (max (py_round amount 3) (min_order_size c)))"

subsection \<open>Order ledger (\<^verbatim>\<open>OrderInfo\<close>, \<^verbatim>\<open>OrderManager\<close>)\<close>

record order_info =
  order_id :: string
  order_symbol :: string
  side :: string
  price :: real
  amount :: real
  status :: string
  created_at :: nat
  closed_at :: "nat option"
  filled_price :: "real option"
  filled_amount :: "real option"
  profit :: "real option"

type_synonym ledger = "string \<rightharpoonup> order_info"

definition add_order :: "order_info \<Rightarrow> ledger \<Rightarrow> ledger" where
  "add_order order os = os(order_id order \<mapsto> order)"

definition update_order ::
  "nat \<Rightarrow> string \<Rightarrow> string \<Rightarrow> real option \<Rightarrow> real option \<Rightarrow> ledger \<Rightarrow> ledger" where
  \<comment> \<open>the first argument is the value \<^verbatim>\<open>datetime.now()\<close> has during the call\<close>
  "update_order now oid st fp fa os =
     (case os oid of
        None \<Rightarrow> os
      | Some order \<Rightarrow>
          let o1 = order\<lparr>status := st\<rparr>;
              o2 = (if st = ''closed'' \<or> st = ''cancelled''
                    then o1\<lparr>closed_at := Some now\<rparr> else o1);
              o3 = (if truthy fp \<and> truthy fa then
                      let o4 = o2\<lparr>filled_price := fp, filled_amount := fa\<rparr>
                      in if side o4 = ''ask''
                         then o4\<lparr>profit := Some ((the fp - price o4) * the fa)\<rparr>
                         else o4
                    else o2)
          in os(oid \<mapsto> o3))"

subsection \<open>The engine's environment: exchange client and wall clock\<close>

text \<open>
  The exchange client is an external collaborator: every call is a round trip that returns
  a parsed record or raises. It is modelled as a deterministic machine over an arbitrary
  state \<open>'x\<close>, so successive calls may answer differently. A venue order carries the keys of
  the parsed order dictionary that the engine reads; \<open>v_average\<close> and \<open>v_filled\<close> are \<open>None\<close>
  when the key is missing.
\<close>

record venue_order =
  v_id :: string
  v_side :: string
  v_status :: string
  v_average :: "real option"
  v_filled :: "real option"

record 'x env =
  fetch_ticker :: "'x \<Rightarrow> (error + real) \<times> 'x"
  fetch_balance :: "'x \<Rightarrow> (error + (string \<rightharpoonup> real)) \<times> 'x"
  create_order :: "string \<Rightarrow> real \<Rightarrow> real \<Rightarrow> 'x \<Rightarrow> (error + string) \<times> 'x"
  cancel_order :: "string \<Rightarrow> 'x \<Rightarrow> (error + unit) \<times> 'x"
  fetch_open_orders :: "'x \<Rightarrow> (error + venue_order list) \<times> 'x"
  datetime_now :: "'x \<Rightarrow> nat \<times> 'x"

text \<open>The trace records every request sent to the venue and the log lines that name a decision.\<close>

datatype event =
    FetchTicker
  | FetchBalance
  | FetchOpenOrders
  | CreateOrder string real real
  | CancelOrder string
  | SkipImmediate string real real
  | RiskStop real
  | BuyRelay nat nat
  | SellRelay nat int

record 'x engine =
  orders :: ledger
  venue :: 'x
  trace :: "event list"

definition call_fetch_ticker :: "'x env \<Rightarrow> 'x engine \<Rightarrow> (error + real) \<times> 'x engine" where
  "call_fetch_ticker ex s =
     (let (r, x) = fetch_ticker ex (venue s)
      in (r, s\<lparr>venue := x, trace := trace s @ [FetchTicker]\<rparr>))"

definition call_fetch_balance ::
  "'x env \<Rightarrow> 'x engine \<Rightarrow> (error + (string \<rightharpoonup> real)) \<times> 'x engine" where
  "call_fetch_balance ex s =
     (let (r, x) = fetch_balance ex (venue s)
      in (r, s\<lparr>venue := x, trace := trace s @ [FetchBalance]\<rparr>))"

definition call_fetch_open_orders ::
  "'x env \<Rightarrow> 'x engine \<Rightarrow> (error + venue_order list) \<times> 'x engine" where
  "call_fetch_open_orders ex s =
     (let (r, x) = fetch_open_orders ex (venue s)
      in (r, s\<lparr>venue := x, trace := trace s @ [FetchOpenOrders]\<rparr>))"

definition call_create_order ::
  "'x env \<Rightarrow> string \<Rightarrow> real \<Rightarrow> real \<Rightarrow> 'x engine \<Rightarrow> (error + string) \<times> 'x engine" where
  "call_create_order ex sd amt pr s =
     (let (r, x) = create_order ex sd amt pr (venue s)
      in (r, s\<lparr>venue := x, trace := trace s @ [CreateOrder sd amt pr]\<rparr>))"

definition call_cancel_order ::
  "'x env \<Rightarrow> string \<Rightarrow> 'x engine \<Rightarrow> (error + unit) \<times> 'x engine" where
  "call_cancel_order ex oid s =
     (let (r, x) = cancel_order ex oid (venue s)
      in (r, s\<lparr>venue := x, trace := trace s @ [CancelOrder oid]\<rparr>))"

definition read_clock :: "'x env \<Rightarrow> 'x engine \<Rightarrow> nat \<times> 'x engine" where
  "read_clock ex s = (let (t, x) = datetime_now ex (venue s) in (t, s\<lparr>venue := x\<rparr>))"

definition log_event :: "event \<Rightarrow> 'x engine \<Rightarrow> 'x engine" where
  "log_event e s = s\<lparr>trace := trace s @ [e]\<rparr>"

subsection \<open>Symbol and balances\<close>

fun split_on :: "char \<Rightarrow> string \<Rightarrow> string list" where
  "split_on sep [] = [[]]"
| "split_on sep (ch # rest) =
     (if ch = sep then [] # split_on sep rest
      else (case split_on sep rest of w # ws \<Rightarrow> (ch # w) # ws | [] \<Rightarrow> [[ch]]))"

definition split_symbol :: "string \<Rightarrow> error + string \<times> string" where
  \<comment> \<open>\<^verbatim>\<open>base_currency, quote_currency = self.symbol.split('_')\<close>\<close>
  "split_symbol s = (case split_on CHR ''_'' s of [b, q] \<Rightarrow> Inr (b, q) | _ \<Rightarrow> Inl ValueError)"

definition free_balance :: "(string \<rightharpoonup> real) \<Rightarrow> string \<Rightarrow> real" where
  \<comment> \<open>\<^verbatim>\<open>float(balance.get(currency, {}).get('free', 0))\<close>\<close>
  "free_balance bal cur = (case bal cur of None \<Rightarrow> 0 | Some v \<Rightarrow> v)"

definition or_zero :: "real option \<Rightarrow> real" where
  \<comment> \<open>\<^verbatim>\<open>float(order.get(key, 0))\<close>\<close>
  "or_zero v = (case v of None \<Rightarrow> 0 | Some x \<Rightarrow> x)"

subsection \<open>Placing and cancelling orders\<close>

definition place_order ::
  "'x env \<Rightarrow> config \<Rightarrow> string \<Rightarrow> real \<Rightarrow> real \<Rightarrow> 'x engine \<Rightarrow> string option \<times> 'x engine" where
  "place_order ex c sd amt pr s =
     (case call_fetch_ticker ex s of
        (Inl e, s1) \<Rightarrow> (None, s1)
      | (Inr current_price, s1) \<Rightarrow>
          if sd = ''bid'' \<and> current_price \<le> pr then
            (None, log_event (SkipImmediate sd amt pr) s1)
          else if sd \<noteq> ''bid'' \<and> pr \<le> current_price then
            (None, log_event (SkipImmediate sd amt pr) s1)
          else
            (case call_create_order ex (if sd = ''bid'' then ''Bid'' else ''Ask'') amt pr s1 of
               (Inl e, s2) \<Rightarrow> (None, s2)
             | (Inr oid, s2) \<Rightarrow>
                 (let (t, s3) = read_clock ex s2;
                      info = \<lparr>order_id = oid, order_symbol = symbol c, side = sd,
                              price = pr, amount = amt, status = ''open'', created_at = t,
                              closed_at = None, filled_price = None, filled_amount = None,
                              profit = None\<rparr>
                  in (Some oid, s3\<lparr>orders := add_order info (orders s3)\<rparr>))))"

fun cancel_each :: "'x env \<Rightarrow> venue_order list \<Rightarrow> 'x engine \<Rightarrow> 'x engine" where
  "cancel_each ex [] s = s"
| "cancel_each ex (order # rest) s =
     (case call_cancel_order ex (v_id order) s of
        (Inl e, s1) \<Rightarrow> cancel_each ex rest s1
      | (Inr u, s1) \<Rightarrow>
          if orders s1 (v_id order) \<noteq> None then
            let (t, s2) = read_clock ex s1
            in cancel_each ex rest
                 (s2\<lparr>orders := update_order t (v_id order) ''cancelled'' None None (orders s2)\<rparr>)
          else cancel_each ex rest s1)"

definition cancel_all_orders :: "'x env \<Rightarrow> 'x engine \<Rightarrow> 'x engine" where
  "cancel_all_orders ex s =
     (case call_fetch_open_orders ex s of
        (Inl e, s1) \<Rightarrow> s1
      | (Inr open_orders, s1) \<Rightarrow> if open_orders = [] then s1 else cancel_each ex open_orders s1)"

definition check_balance ::
  "'x env \<Rightarrow> config \<Rightarrow> string \<Rightarrow> real \<Rightarrow> real \<Rightarrow> 'x engine \<Rightarrow> bool \<times> 'x engine" where
  "check_balance ex c sd amt pr s =
     (case call_fetch_balance ex s of
        (Inl e, s1) \<Rightarrow> (False, s1)
      | (Inr bal, s1) \<Rightarrow>
          (case split_symbol (symbol c) of
             Inl e \<Rightarrow> (False, s1)
           | Inr (base_currency, quote_currency) \<Rightarrow>
               if sd = ''bid'' then
                 (if free_balance bal quote_currency < amt * pr then (False, s1) else (True, s1))
               else
                 (if free_balance bal base_currency < amt then (False, s1) else (True, s1))))"

fun place_each ::
  "'x env \<Rightarrow> config \<Rightarrow> real \<Rightarrow> real list \<Rightarrow> 'x engine \<Rightarrow> 'x engine" where
  "place_each ex c current_price [] s = s"
| "place_each ex c current_price (p # rest) s =
     (if current_price * (1 - 1 / 10) \<le> p \<and> p \<le> current_price * (1 + 1 / 10) then
        (case get_order_amount c p of
           Inl e \<Rightarrow> s
         | Inr amt \<Rightarrow>
             if p < current_price then
               (case check_balance ex c ''bid'' amt p s of
                  (True, s1) \<Rightarrow> place_each ex c current_price rest (snd (place_order ex c ''bid'' amt p s1))
                | (False, s1) \<Rightarrow> place_each ex c current_price rest s1)
             else if current_price < p then
               (case check_balance ex c ''ask'' amt p s of
                  (True, s1) \<Rightarrow> place_each ex c current_price rest (snd (place_order ex c ''ask'' amt p s1))
                | (False, s1) \<Rightarrow> place_each ex c current_price rest s1)
             else place_each ex c current_price rest s)
      else place_each ex c current_price rest s)"

definition place_grid_orders :: "'x env \<Rightarrow> config \<Rightarrow> real list \<Rightarrow> 'x engine \<Rightarrow> 'x engine" where
  "place_grid_orders ex c grid_prices s =
     (case call_fetch_ticker ex s of
        (Inl e, s1) \<Rightarrow> s1
      | (Inr current_price, s1) \<Rightarrow>
          place_each ex c current_price grid_prices (cancel_all_orders ex s1))"

subsection \<open>The monitoring step and the loop\<close>

fun reconcile :: "'x env \<Rightarrow> venue_order list \<Rightarrow> 'x engine \<Rightarrow> 'x engine" where
  "reconcile ex [] s = s"
| "reconcile ex (order # rest) s =
     (if orders s (v_id order) \<noteq> None \<and> v_status order = ''closed'' then
        (let (t, s1) = read_clock ex s
         in reconcile ex rest
              (s1\<lparr>orders := update_order t (v_id order) ''closed''
                                (Some (or_zero (v_average order)))
                                (Some (or_zero (v_filled order))) (orders s1)\<rparr>))
      else reconcile ex rest s)"

text \<open>
  The order summary printed at the end of a step only logs. When it raises, the exception is
  caught by the step's handler, which returns \<^verbatim>\<open>True\<close> as the normal path does; it is
  left out of the model.
\<close>

definition check_and_adjust_orders ::
  "'x env \<Rightarrow> config \<Rightarrow> real list \<Rightarrow> 'x engine \<Rightarrow> bool \<times> 'x engine" where
  "check_and_adjust_orders ex c grid_prices s =
     (case call_fetch_ticker ex s of
        (Inl e, s1) \<Rightarrow> (True, s1)
      | (Inr current_price, s1) \<Rightarrow>
     (case call_fetch_balance ex s1 of
        (Inl e, s2) \<Rightarrow> (True, s2)
      | (Inr bal, s2) \<Rightarrow>
     (case split_symbol (symbol c) of
        Inl e \<Rightarrow> (True, s2)
      | Inr (base_currency, quote_currency) \<Rightarrow>
          if current_price \<le> stop_loss_price c \<or> take_profit_price c \<le> current_price then
            (False, cancel_all_orders ex (log_event (RiskStop current_price) s2))
          else
     (case call_fetch_open_orders ex s2 of
        (Inl e, s3) \<Rightarrow> (True, s3)
      | (Inr open_orders, s3) \<Rightarrow>
          (let s4 = reconcile ex open_orders s3;
               base_balance = free_balance bal base_currency
           in if base_balance = 0 then
                (let possible_buy_orders = length (filter (\<lambda>p. p < current_price) grid_prices);
                     buy_orders = filter (\<lambda>order. v_side order = ''Bid'') open_orders
                 in if length buy_orders < possible_buy_orders then
                      (True, place_grid_orders ex c grid_prices
                               (log_event (BuyRelay (length buy_orders) possible_buy_orders) s4))
                    else (True, s4))
              else
                (let available_balance = base_balance * (1 - 3 / 1000);
                     possible_sell_orders = length (filter (\<lambda>p. current_price < p) grid_prices);
                     sell_orders = filter (\<lambda>order. v_side order = ''Ask'') open_orders
                 in case get_order_amount c current_price of
                      Inl e \<Rightarrow> (True, s4)
                    | Inr grid_amount \<Rightarrow>
                        if grid_amount = 0 then (True, s4)
                        else
                          (let max_possible_sell_orders = py_int (available_balance / grid_amount);
                               actual_possible_sell_orders =
                                 min (int possible_sell_orders) max_possible_sell_orders
                           in if int (length sell_orders) < actual_possible_sell_orders then
                                (True, place_grid_orders ex c grid_prices
                                         (log_event (SellRelay (length sell_orders)
                                                       actual_possible_sell_orders) s4))
                              else (True, s4))))))))"

fun monitor :: "nat \<Rightarrow> 'x env \<Rightarrow> config \<Rightarrow> real list \<Rightarrow> 'x engine \<Rightarrow> 'x engine option" where
  \<comment> \<open>the \<^verbatim>\<open>while True\<close> loop of \<^verbatim>\<open>run\<close>, with fuel: \<open>None\<close> when the fuel runs out\<close>
  "monitor 0 ex c grid_prices s = None"
| "monitor (Suc n) ex c grid_prices s =
     (case check_and_adjust_orders ex c grid_prices s of
        (False, s1) \<Rightarrow> Some s1
      | (True, s1) \<Rightarrow> monitor n ex c grid_prices s1)"

definition run :: "nat \<Rightarrow> 'x env \<Rightarrow> config \<Rightarrow> real list \<Rightarrow> 'x engine \<Rightarrow> 'x engine option" where
  "run n ex c grid_prices s = monitor n ex c grid_prices (place_grid_orders ex c grid_prices s)"

subsection \<open>Start-up\<close>




subsection \<open>Observing the trace\<close>

fun is_sell_relay :: "event \<Rightarrow> bool" where
  "is_sell_relay (SellRelay n t) = True"
| "is_sell_relay e = False"

definition sell_relays :: "event list \<Rightarrow> event list" where
  "sell_relays es = filter is_sell_relay es"

subsection \<open>Sample configurations, ledgers and venues\<close>

definition demo_config :: config where
  "demo_config = \<lparr>symbol = ''SOL_USDC'', upper_price = 200, lower_price = 100, grid_number = 4,
     investment = 1000, grid_type = ''arithmetic'', min_order_size = 1 / 100, post_only = True,
     time_in_force = ''GTC'', max_orders = 10, stop_loss_price = 90, take_profit_price = 210,
     check_interval = 5\<rparr>"



definition demo_order :: "string \<Rightarrow> order_info" where
  "demo_order sd = \<lparr>order_id = ''o1'', order_symbol = ''SOL_USDC'', side = sd, price = 150,
     amount = 2, status = ''open'', created_at = 0, closed_at = None, filled_price = None,
     filled_amount = None, profit = None\<rparr>"

definition demo_ledger :: "string \<Rightarrow> ledger" where
  "demo_ledger sd = add_order (demo_order sd) Map.empty"

definition demo_env :: "real \<Rightarrow> real \<Rightarrow> venue_order list \<Rightarrow> nat env" where
  \<comment> \<open>a venue that always answers: the state counts the calls and is the clock\<close>
  "demo_env last_price base_free open_orders =
     \<lparr>fetch_ticker = (\<lambda>x. (Inr last_price, Suc x)),
      fetch_balance = (\<lambda>x. (Inr [''SOL'' \<mapsto> base_free, ''USDC'' \<mapsto> 5000], Suc x)),
      create_order = (\<lambda>sd amt pr x. (Inr ''o2'', Suc x)),
      cancel_order = (\<lambda>oid x. (Inr (), Suc x)),
      fetch_open_orders = (\<lambda>x. (Inr open_orders, Suc x)),
      datetime_now = (\<lambda>x. (x, Suc x))\<rparr>"

definition start :: "nat engine" where
  "start = \<lparr>orders = Map.empty, venue = 0, trace = []\<rparr>"


section \<open>Order ledger\<close>

lemma update_order_known:
  "os oid = Some order \<Longrightarrow>
   update_order now oid st fp fa os oid =
     Some (order\<lparr>status := st,
             closed_at := (if st = ''closed'' \<or> st = ''cancelled'' then Some now
                           else closed_at order),
             filled_price := (if truthy fp \<and> truthy fa then fp else filled_price order),
             filled_amount := (if truthy fp \<and> truthy fa then fa else filled_amount order),
             profit := (if truthy fp \<and> truthy fa \<and> side order = ''ask''
                        then Some ((the fp - price order) * the fa) else profit order)\<rparr>)"
  by (simp add: update_order_def Let_def)

lemma update_order_other: "k \<noteq> oid \<Longrightarrow> update_order now oid st fp fa os k = os k"
  by (simp add: update_order_def Let_def split: option.splits)

lemma update_order_unknown: "os oid = None \<Longrightarrow> update_order now oid st fp fa os = os"
  by (simp add: update_order_def)

lemma demo_ledger_o1: "demo_ledger sd ''o1'' = Some (demo_order sd)"
  by (simp add: demo_ledger_def add_order_def demo_order_def)

text \<open>
  C2. The claim: a second \<open>update_order\<close> with the same terminal status leaves \<open>closed_at\<close>
  as the first call stamped it. The code stamps on every call with a terminal status: an
  order closed at time 1 and updated to \<open>closed\<close> again at time 2 carries \<open>closed_at = 2\<close>.
\<close>

theorem closed_at_restamp_example:
  "map_option status (update_order 1 ''o1'' ''closed'' None None (demo_ledger ''ask'') ''o1'')
     = Some ''closed''
   \<and> map_option closed_at (update_order 1 ''o1'' ''closed'' None None (demo_ledger ''ask'') ''o1'')
     = Some (Some 1)
   \<and> map_option closed_at
       (update_order 2 ''o1'' ''closed'' None None
          (update_order 1 ''o1'' ''closed'' None None (demo_ledger ''ask'')) ''o1'')
     = Some (Some 2)"
  by (simp add: update_order_def demo_ledger_def demo_order_def add_order_def truthy_def)

text \<open>
  C2, as the code has it: every \<open>update_order\<close> call with status \<open>closed\<close> or \<open>cancelled\<close> on
  an order of the ledger sets \<open>closed_at\<close> to the time of that call, whatever the order's
  status and stamp before; a call with any other status leaves \<open>closed_at\<close> as it was.
\<close>

theorem closed_at_stamped_each_call:
  "os oid = Some order \<Longrightarrow>
   map_option closed_at (update_order now oid st fp fa os oid) =
     Some (if st = ''closed'' \<or> st = ''cancelled'' then Some now else closed_at order)"
  by (simp add: update_order_known)

theorem closed_at_stamped_each_call_witness:
  "demo_ledger ''ask'' ''o1'' = Some (demo_order ''ask'')
   \<and> map_option closed_at
       (update_order 7 ''o1'' ''cancelled'' None None (demo_ledger ''ask'') ''o1'') = Some (Some 7)"
  using closed_at_stamped_each_call
    [of "demo_ledger ''ask''" "''o1''" "demo_order ''ask''" 7 "''cancelled''" None None]
  by (simp add: demo_ledger_o1)

text \<open>
  C3. The claim: once an order is \<open>closed\<close> or \<open>cancelled\<close>, no later \<open>update_order\<close> changes
  its status. The code assigns the given status unconditionally: a closed order becomes
  \<open>cancelled\<close>, or \<open>open\<close> again, when \<open>update_order\<close> is called with that status.
\<close>

theorem terminal_status_left_example:
  "map_option status (update_order 1 ''o1'' ''closed'' None None (demo_ledger ''ask'') ''o1'')
     = Some ''closed''
   \<and> map_option status
       (update_order 2 ''o1'' ''cancelled'' None None
          (update_order 1 ''o1'' ''closed'' None None (demo_ledger ''ask'')) ''o1'')
     = Some ''cancelled''
   \<and> map_option status
       (update_order 2 ''o1'' ''open'' None None
          (update_order 1 ''o1'' ''closed'' None None (demo_ledger ''ask'')) ''o1'')
     = Some ''open''"
  by (simp add: update_order_def demo_ledger_def demo_order_def add_order_def truthy_def)

text \<open>
  C3, as the code has it: \<open>update_order\<close> on an order of the ledger sets its status to the
  status given, whatever the status before; the ledger enforces no transition rule.
\<close>

theorem status_set_to_argument:
  "os oid = Some order \<Longrightarrow>
   map_option status (update_order now oid st fp fa os oid) = Some st"
  by (simp add: update_order_known)

theorem status_set_to_argument_witness:
  "demo_ledger ''bid'' ''o1'' = Some (demo_order ''bid'')
   \<and> map_option status
       (update_order 3 ''o1'' ''closed'' None None (demo_ledger ''bid'') ''o1'') = Some ''closed''"
  using status_set_to_argument
    [of "demo_ledger ''bid''" "''o1''" "demo_order ''bid''" 3 "''closed''" None None]
  by (simp add: demo_ledger_o1)

text \<open>
  C6. The claim: profit is populated if and only if the side is \<open>ask\<close> and \<open>update_order\<close> was
  given both a filled price and a filled amount. The code tests the truth value of the two
  arguments, so a fill value of zero counts as missing: a sell order updated with filled
  price 0 and filled amount 2 keeps \<open>profit = None\<close>.
\<close>

theorem zero_fill_price_no_profit_example:
  "side (demo_order ''ask'') = ''ask''
   \<and> map_option profit
       (update_order 1 ''o1'' ''closed'' (Some 0) (Some 2) (demo_ledger ''ask'') ''o1'')
     = Some None"
  by (simp add: update_order_def demo_ledger_def demo_order_def add_order_def truthy_def)

text \<open>
  C6, as the code has it: a call of \<open>update_order\<close> populates the profit of a ledger order if
  and only if the side is \<open>ask\<close> and the call was given a filled price and a filled amount
  that are both present and non-zero; the profit is then
  \<open>(filled_price - order_price) * filled_amount\<close>. In every other case, and for every \<open>bid\<close>
  order, the profit field stays as it was.
\<close>

theorem profit_populated_iff:
  "os oid = Some order \<Longrightarrow>
   (\<exists>order'. update_order now oid st fp fa os oid = Some order'
      \<and> profit order' =
          (if side order = ''ask'' \<and> truthy fp \<and> truthy fa
           then Some ((the fp - price order) * the fa) else profit order)
      \<and> (profit order = None \<longrightarrow>
           (profit order' \<noteq> None) = (side order = ''ask'' \<and> truthy fp \<and> truthy fa))
      \<and> (side order = ''bid'' \<longrightarrow> profit order' = profit order))"
  by (simp add: update_order_known)

theorem profit_populated_iff_witness:
  "demo_ledger ''ask'' ''o1'' = Some (demo_order ''ask'')
   \<and> profit (demo_order ''ask'') = None
   \<and> map_option profit
       (update_order 1 ''o1'' ''closed'' (Some 160) (Some 2) (demo_ledger ''ask'') ''o1'')
     = Some (Some 20)
   \<and> demo_ledger ''bid'' ''o1'' = Some (demo_order ''bid'')
   \<and> side (demo_order ''bid'') = ''bid''
   \<and> map_option profit
       (update_order 1 ''o1'' ''closed'' (Some 160) (Some 2) (demo_ledger ''bid'') ''o1'')
     = Some None"
  using profit_populated_iff
    [of "demo_ledger ''ask''" "''o1''" "demo_order ''ask''" 1 "''closed''" "Some 160" "Some 2"]
    profit_populated_iff
    [of "demo_ledger ''bid''" "''o1''" "demo_order ''bid''" 1 "''closed''" "Some 160" "Some 2"]
  by (auto simp: demo_ledger_o1 demo_order_def truthy_def)

text \<open>
  C10. An \<open>update_order\<close> call whose filled price is \<open>None\<close> or 0, or whose filled amount is
  \<open>None\<close> or 0, leaves \<open>filled_price\<close>, \<open>filled_amount\<close> and \<open>profit\<close> of the order unchanged;
  it still sets the status, and \<open>closed_at\<close> for a terminal status.
\<close>

theorem zero_fill_leaves_fill_fields:
  "os oid = Some order \<Longrightarrow>
   fp = None \<or> fp = Some 0 \<or> fa = None \<or> fa = Some 0 \<Longrightarrow>
   update_order now oid st fp fa os oid =
     Some (order\<lparr>status := st,
             closed_at := (if st = ''closed'' \<or> st = ''cancelled'' then Some now
                           else closed_at order)\<rparr>)"
  by (auto simp: update_order_known truthy_def)

theorem zero_fill_leaves_fill_fields_witness:
  "demo_ledger ''ask'' ''o1'' = Some (demo_order ''ask'')
   \<and> update_order 5 ''o1'' ''closed'' (Some 0) (Some 0) (demo_ledger ''ask'') ''o1''
     = Some ((demo_order ''ask'')\<lparr>status := ''closed'', closed_at := Some 5\<rparr>)"
  using zero_fill_leaves_fill_fields
    [of "demo_ledger ''ask''" "''o1''" "demo_order ''ask''" "Some 0" "Some 0" 5 "''closed''"]
  by (simp add: demo_ledger_o1)

section \<open>Price ladder\<close>
















section \<open>Placement, risk guard and rebalancing\<close>

lemma sell_relays_Nil [simp]: "sell_relays [] = []"
  by (simp add: sell_relays_def)

lemma sell_relays_Cons [simp]:
  "sell_relays (e # es) = (if is_sell_relay e then e # sell_relays es else sell_relays es)"
  by (simp add: sell_relays_def)

lemma sell_relays_append [simp]: "sell_relays (es @ fs) = sell_relays es @ sell_relays fs"
  by (simp add: sell_relays_def)












text \<open>
  C5. The claim: a buy at or above the current price (a sell at or below it) is rejected
  before any network call is made. The rejection needs the current price, and \<open>place_order\<close>
  fetches it from the venue first: the rejected buy at 160 against a price of 150 has sent
  one ticker request.
\<close>

theorem rejected_buy_fetches_ticker_example:
  "place_order (demo_env 150 10 []) demo_config ''bid'' 1 160 start
     = (None, \<lparr>orders = Map.empty, venue = 1,
               trace = [FetchTicker, SkipImmediate ''bid'' 1 160]\<rparr>)"
  by (simp add: place_order_def call_fetch_ticker_def log_event_def demo_env_def start_def)

text \<open>
  C5, as the code has it: when the ticker fetch answers, a buy at a price at or above the
  current price, and a sell at a price at or below it, is rejected: \<open>place_order\<close> returns
  \<open>None\<close>, the ledger is unchanged, and the ticker fetch is the only request sent to the
  venue, so no order-creation request is issued.
\<close>

theorem crossing_order_rejected:
  assumes ticker: "fetch_ticker ex (venue s) = (Inr cur, x1)"
    and crossing: "(sd = ''bid'' \<and> cur \<le> pr) \<or> (sd = ''ask'' \<and> pr \<le> cur)"
  shows "place_order ex c sd amt pr s
           = (None, \<lparr>orders = orders s, venue = x1,
                     trace = trace s @ [FetchTicker, SkipImmediate sd amt pr]\<rparr>)"
  using assms
  by (auto simp: place_order_def call_fetch_ticker_def log_event_def)

theorem crossing_order_rejected_witness:
  "fetch_ticker (demo_env 150 10 []) (venue start) = (Inr 150, 1)
   \<and> (150::real) \<le> 150
   \<and> place_order (demo_env 150 10 []) demo_config ''ask'' 2 150 start
       = (None, \<lparr>orders = Map.empty, venue = 1,
                 trace = [FetchTicker, SkipImmediate ''ask'' 2 150]\<rparr>)"
proof -
  have h: "fetch_ticker (demo_env 150 10 []) (venue start) = (Inr 150, 1)"
    by (simp add: demo_env_def start_def)
  show ?thesis
    using crossing_order_rejected [OF h, of "''ask''" 150 demo_config 2] h
    by (simp add: start_def)
qed



text \<open>
  The reconciliation loop passes 0 for a fill field the venue record lacks, so an order
  reported closed without an average price is closed in the ledger with its fill fields and
  profit untouched.
\<close>

lemma reconcile_without_average:
  assumes "orders s (v_id vo) = Some order" and "v_status vo = ''closed''"
    and "v_average vo = None" and "datetime_now ex (venue s) = (t, x)"
  shows "orders (reconcile ex [vo] s) (v_id vo)
           = Some (order\<lparr>status := ''closed'', closed_at := Some t\<rparr>)"
  using assms
  by (simp add: read_clock_def or_zero_def update_order_known truthy_def)

end
